theory Spec2Isabelle
  imports Main "HOL-Library.AList" "HOL-Library.Word"
begin

unbundle bit_operations_syntax

section \<open>Data model\<close>

text \<open>
  Modelled from the spec: the enum \<open>prisma.enums.UserRole\<close> is declared in the generated
  Prisma client, which is not among the source files. The spec gives
  "role: enumerated {ADMIN, other roles}"; the code only ever compares against \<open>ADMIN\<close>.
\<close>

datatype UserRole = ADMIN | OtherRole string

text \<open>
  Modelled from the spec: the model \<open>prisma.models.User\<close> comes from the Prisma schema, which
  is not among the source files. The fields are the ones the services read or write:
  \<open>id\<close> and \<open>email\<close> (the two unique lookup columns), \<open>password\<close> (the stored hash),
  \<open>role\<close> and the nullable \<open>apiKey\<close>.
\<close>

record User =
  id' :: string
  email :: string
  password :: string
  role :: UserRole
  apiKey :: "string option"

text \<open>
  Points in time and durations are integers counting microseconds, the resolution of
  Python's \<open>datetime\<close> and \<open>timedelta\<close>; \<open>datetime + timedelta\<close> is integer addition.
\<close>

type_synonym datetime = int
type_synonym timedelta = int

definition timedelta_minutes :: "int \<Rightarrow> timedelta" where
  "timedelta_minutes m = m * 60 * 1000000"

definition timedelta_days :: "int \<Rightarrow> timedelta" where
  "timedelta_days d = d * 86400 * 1000000"

text \<open>
  Exceptions. \<open>fastapi.HTTPException(status_code=..., detail=...)\<close> is the only one the
  services raise themselves; \<open>LibraryError\<close> stands for any exception raised inside a
  library call (passlib, PyJWT), with its text, which the services pass on.
\<close>

datatype py_exception =
  HTTPException (exc_status_code: nat) (exc_detail: string)
| LibraryError (exc_text: string)

text \<open>The values that occur in a token payload, and the payload as an ordered dictionary.\<close>

datatype claim_value = Str string | Datetime datetime

type_synonym claims = "(string \<times> claim_value) list"

text \<open>The JSON values a token carries, and the payload as it is serialised.\<close>

datatype json_value = JStr string | JInt int

type_synonym json_payload = "(string \<times> json_value) list"

record 'tok AuthenticationResponse =
  access_token :: 'tok
  token_type :: string

record IssueApiKeyResponse =
  api_key :: string
  permissions :: "string list"
  expiration_date :: datetime

text \<open>\<open>fastapi.responses.Response(content=..., status_code=..., media_type=...)\<close>.\<close>

record Response =
  content :: "(string \<times> string) list"
  status_code :: nat
  media_type :: string

section \<open>The user table\<close>

text \<open>
  Modelled from the spec: the user repository behind \<open>prisma.models.User.prisma()\<close> (the
  generated client and the database) is not among the source files. The spec gives its shape
  as "find_user_by_handle(handle) -> User?", "find_user_by_id(id) -> User?" and
  "update_user_api_key(id, key) -> ()". The table is a list of rows;
  \<open>find_unique(where={column: v})\<close> returns the row whose column equals \<open>v\<close>, or \<open>None\<close>;
  \<open>update(where={"id": v}, data={"apiKey": k})\<close> rewrites the \<open>apiKey\<close> column of that
  row and nothing else.
\<close>

type_synonym user_table = "User list"

definition find_unique_email :: "user_table \<Rightarrow> string \<Rightarrow> User option" where
  "find_unique_email db e = find (\<lambda>u. email u = e) db"

definition find_unique_id :: "user_table \<Rightarrow> string \<Rightarrow> User option" where
  "find_unique_id db i = find (\<lambda>u. id' u = i) db"

fun update_apiKey :: "user_table \<Rightarrow> string \<Rightarrow> string \<Rightarrow> user_table" where
  "update_apiKey [] i k = []"
| "update_apiKey (u # us) i k =
     (if id' u = i then u\<lparr>apiKey := Some k\<rparr> # us else u # update_apiKey us i k)"



section \<open>The module \<open>authenticate_user_service\<close>\<close>

text \<open>
  The module-level names \<open>SECRET_KEY\<close> and \<open>ALGORITHM\<close> are globals that
  \<open>create_access_token\<close> reads at each call; the record holds their values and
  \<open>auth_module\<close> is the module as it is loaded.
\<close>

record auth_globals =
  SECRET_KEY :: string
  ALGORITHM :: string

definition auth_module :: auth_globals where
  "auth_module = \<lparr>SECRET_KEY = ''YOUR_SECRET_KEY'', ALGORITHM = ''HS256''\<rparr>"

text \<open>
  \<open>pwd_context.verify\<close> (passlib, bcrypt) is a parameter \<open>pwd_verify\<close>: it returns a truth
  value or raises (as it does on a stored value that is no hash it knows). The function only
  delegates to it, so what the library raises leaves the function.
\<close>

definition verify_password ::
  "(string \<Rightarrow> string \<Rightarrow> py_exception + bool) \<Rightarrow> string \<Rightarrow> string \<Rightarrow> py_exception + bool" where
  "verify_password pwd_verify plain_password hashed_password =
     pwd_verify plain_password hashed_password"

definition get_user :: "user_table \<Rightarrow> string \<Rightarrow> py_exception + User" where
  "get_user db username =
     (case find_unique_email db username of
        None \<Rightarrow> Inl (HTTPException 404 ''User not found'')
      | Some user \<Rightarrow> Inr user)"

text \<open>
  Python's truth value of the argument \<open>expires_delta\<close>: \<open>None\<close> is false, and so is a
  \<open>timedelta\<close> of zero length.
\<close>

fun truthy :: "timedelta option \<Rightarrow> bool" where
  "truthy None = False"
| "truthy (Some d) = (d \<noteq> 0)"

text \<open>
  \<open>jwt.encode\<close> (PyJWT) is a parameter \<open>jwt_encode\<close>, \<open>datetime.utcnow()\<close> a parameter
  \<open>utcnow\<close>. \<open>dict.update\<close> on the copy replaces the value of an existing key in place and
  appends a new key, which is \<open>AList.update\<close>. The function returns what the encoder
  returns; where the encoder can raise, its result type \<open>'tok\<close> is a sum.
\<close>

definition create_access_token ::
  "auth_globals \<Rightarrow> (claims \<Rightarrow> string \<Rightarrow> string \<Rightarrow> 'tok) \<Rightarrow> datetime \<Rightarrow>
   claims \<Rightarrow> timedelta option \<Rightarrow> 'tok" where
  "create_access_token g jwt_encode utcnow data expires_delta =
     (let to_encode = data;
          to_encode' =
            (if truthy expires_delta
             then AList.update ''exp'' (Datetime (utcnow + the expires_delta)) to_encode
             else AList.update ''exp'' (Datetime (utcnow + timedelta_minutes 15)) to_encode);
          encoded_jwt = jwt_encode to_encode' (SECRET_KEY g) (ALGORITHM g)
      in encoded_jwt)"

text \<open>
  The login flow. An exception of \<open>pwd_context.verify\<close> or of \<open>jwt.encode\<close> is not
  caught here and leaves the function as it is.
\<close>

definition authenticate_user ::
  "auth_globals \<Rightarrow> (string \<Rightarrow> string \<Rightarrow> py_exception + bool) \<Rightarrow>
   (claims \<Rightarrow> string \<Rightarrow> string \<Rightarrow> py_exception + 'tok) \<Rightarrow>
   datetime \<Rightarrow> user_table \<Rightarrow> string \<Rightarrow> string \<Rightarrow> py_exception + 'tok AuthenticationResponse" where
  "authenticate_user g pwd_verify jwt_encode utcnow db username pw =
     (case get_user db username of
        Inl e \<Rightarrow> Inl e
      | Inr user \<Rightarrow>
          (case verify_password pwd_verify pw (password user) of
             Inl e \<Rightarrow> Inl e
           | Inr verified \<Rightarrow>
               if \<not> verified
               then Inl (HTTPException 401 ''Incorrect username or password'')
               else
                 let access_token_expires = timedelta_minutes 60
                 in (case create_access_token g jwt_encode utcnow
                            [(''sub'', Str (email user))] (Some access_token_expires) of
                       Inl e \<Rightarrow> Inl e
                     | Inr token \<Rightarrow> Inr \<lparr>access_token = token, token_type = ''bearer''\<rparr>)))"

section \<open>The module \<open>issue_api_key_service\<close>\<close>

text \<open>
  \<open>uuid.uuid4()\<close> yields a 128-bit value, a parameter of the call. \<open>str\<close> of a UUID is
  the standard library's rendering: the 32 lower-case hexadecimal digits of the value, most
  significant first, in groups of 8, 4, 4, 4 and 12 separated by hyphens.
\<close>

type_synonym uuid = "128 word"

definition hex_digit :: "nat \<Rightarrow> char" where
  "hex_digit n = ''0123456789abcdef'' ! n"

definition nibble :: "uuid \<Rightarrow> nat \<Rightarrow> nat" where
  "nibble w i = unat (drop_bit (4 * i) w AND 15)"

definition hex32 :: "uuid \<Rightarrow> string" where
  "hex32 w = map (\<lambda>i. hex_digit (nibble w i)) (rev [0..<32])"

definition uuid_str :: "uuid \<Rightarrow> string" where
  "uuid_str w =
     (let h = hex32 w
      in take 8 h @ ''-'' @ take 4 (drop 8 h) @ ''-'' @ take 4 (drop 12 h) @ ''-'' @
         take 4 (drop 16 h) @ ''-'' @ drop 20 h)"

text \<open>
  The call takes the table and returns the result together with the table afterwards;
  \<open>now\<close> is \<open>datetime.now()\<close> and \<open>uuid4\<close> the value drawn by \<open>uuid.uuid4()\<close>.
\<close>

definition issue_api_key ::
  "uuid \<Rightarrow> datetime \<Rightarrow> user_table \<Rightarrow> string \<Rightarrow> string list \<Rightarrow>
   (py_exception + IssueApiKeyResponse) \<times> user_table" where
  "issue_api_key uuid4 now db user_id perms =
     (case find_unique_id db user_id of
        None \<Rightarrow> (Inl (HTTPException 404 ''User not found.''), db)
      | Some user \<Rightarrow>
          if role user \<noteq> ADMIN
          then (Inl (HTTPException 403 ''Insufficient permissions.''), db)
          else
            let new_api_key = uuid_str uuid4;
                expiration = now + timedelta_days 365;
                db' = update_apiKey db user_id new_api_key
            in (Inr \<lparr>api_key = new_api_key, permissions = perms,
                     expiration_date = expiration\<rparr>, db'))"

section \<open>The module \<open>server\<close>\<close>

text \<open>
  Each endpoint wraps its service in \<open>try\<close>/\<open>except Exception\<close>: for a raised exception
  \<open>e\<close> the handler calls \<open>Response\<close> with the dictionary \<open>{"error": str(e)}\<close>, status
  500 and the JSON media type. The record holds the arguments of that call, which is as far
  as the handler's own code goes; what the framework makes of them (it does not accept a
  dictionary as content and answers with its own plain 500) is outside the model, and so
  only the status is read off this record. \<open>str\<close> of an exception is the framework's; it
  is the parameter \<open>exc_str\<close>.
\<close>

definition error_response :: "(py_exception \<Rightarrow> string) \<Rightarrow> py_exception \<Rightarrow> Response" where
  "error_response exc_str e =
     \<lparr>content = [(''error'', exc_str e)], status_code = 500,
      media_type = ''application/json''\<rparr>"

definition api_post_authenticate_user ::
  "(py_exception \<Rightarrow> string) \<Rightarrow> auth_globals \<Rightarrow> (string \<Rightarrow> string \<Rightarrow> py_exception + bool) \<Rightarrow>
   (claims \<Rightarrow> string \<Rightarrow> string \<Rightarrow> py_exception + 'tok) \<Rightarrow> datetime \<Rightarrow> user_table \<Rightarrow>
   string \<Rightarrow> string \<Rightarrow> Response + 'tok AuthenticationResponse" where
  "api_post_authenticate_user exc_str g pwd_verify jwt_encode utcnow db username pw =
     (case authenticate_user g pwd_verify jwt_encode utcnow db username pw of
        Inr res \<Rightarrow> Inr res
      | Inl e \<Rightarrow> Inl (error_response exc_str e))"

definition api_post_issue_api_key ::
  "(py_exception \<Rightarrow> string) \<Rightarrow> uuid \<Rightarrow> datetime \<Rightarrow> user_table \<Rightarrow> string \<Rightarrow> string list \<Rightarrow>
   (Response + IssueApiKeyResponse) \<times> user_table" where
  "api_post_issue_api_key exc_str uuid4 now db user_id perms =
     (case issue_api_key uuid4 now db user_id perms of
        (Inr res, db') \<Rightarrow> (Inr res, db')
      | (Inl e, db') \<Rightarrow> (Inl (error_response exc_str e), db'))"

section \<open>The token library\<close>

text \<open>
  What \<open>jwt.encode\<close> of PyJWT does with the payload before it signs, modelled from the
  library (it is not code of the repository): a \<open>datetime\<close> under one of the keys
  \<open>exp\<close>, \<open>iat\<close>, \<open>nbf\<close> is replaced by \<open>timegm(value.utctimetuple())\<close>, the whole
  seconds since the epoch, so the microseconds are dropped; the payload is then serialised as
  JSON, which fails on a \<open>datetime\<close> under any other key. The signing itself, and with it
  what the library does with a key or an algorithm it refuses, stays a parameter \<open>sign\<close>.
\<close>

definition seconds_of :: "datetime \<Rightarrow> int" where
  "seconds_of t = t div 1000000"

fun json_of_claim :: "string \<Rightarrow> claim_value \<Rightarrow> py_exception + json_value" where
  "json_of_claim k (Str s) = Inr (JStr s)"
| "json_of_claim k (Datetime t) =
     (if k = ''exp'' \<or> k = ''iat'' \<or> k = ''nbf'' then Inr (JInt (seconds_of t))
      else Inl (LibraryError ''Object of type datetime is not JSON serializable''))"

fun pyjwt_payload :: "claims \<Rightarrow> py_exception + json_payload" where
  "pyjwt_payload [] = Inr []"
| "pyjwt_payload ((k, v) # rest) =
     (case json_of_claim k v of
        Inl e \<Rightarrow> Inl e
      | Inr j \<Rightarrow>
          (case pyjwt_payload rest of
             Inl e \<Rightarrow> Inl e
           | Inr js \<Rightarrow> Inr ((k, j) # js)))"

definition pyjwt_encode ::
  "(json_payload \<Rightarrow> string \<Rightarrow> string \<Rightarrow> py_exception + 'tok) \<Rightarrow>
   claims \<Rightarrow> string \<Rightarrow> string \<Rightarrow> py_exception + 'tok" where
  "pyjwt_encode sign payload key alg =
     (case pyjwt_payload payload of
        Inl e \<Rightarrow> Inl e
      | Inr j \<Rightarrow> sign j key alg)"

text \<open>
  A concrete signer for evaluating the services: the token is the triple of serialised
  payload, key and algorithm; an empty key is refused; reading a token under the same key and
  algorithm gives the payload back.
\<close>

datatype jws = JWS json_payload string string

definition sym_sign :: "json_payload \<Rightarrow> string \<Rightarrow> string \<Rightarrow> py_exception + jws" where
  "sym_sign j key alg =
     (if key = [] then Inl (LibraryError ''invalid key'') else Inr (JWS j key alg))"

fun sym_unsign :: "jws \<Rightarrow> string \<Rightarrow> string \<Rightarrow> json_payload option" where
  "sym_unsign (JWS j k a) key alg = (if k = key \<and> a = alg then Some j else None)"

section \<open>Example rows\<close>

text \<open>Two rows used to evaluate the services: an administrator and an ordinary user.\<close>

definition alice :: User where
  "alice = \<lparr>id' = ''u1'', email = ''alice@example.com'', password = ''$2b$12$alicehash'',
            role = ADMIN, apiKey = None\<rparr>"

definition bob :: User where
  "bob = \<lparr>id' = ''u2'', email = ''bob@example.com'', password = ''$2b$12$bobhash'',
          role = OtherRole ''USER'', apiKey = Some ''old-key''\<rparr>"

text \<open>
  A stand-in for the password library when evaluating. Like the library it raises on a
  stored value that does not look like a bcrypt hash; otherwise the stored hash of
  \<open>alice\<close> verifies exactly the password "wonderland" and nothing else verifies.
\<close>

definition alice_pwd_verify :: "string \<Rightarrow> string \<Rightarrow> py_exception + bool" where
  "alice_pwd_verify plain hashed =
     (if take 4 hashed \<noteq> ''$2b$'' then Inl (LibraryError ''hash could not be identified'')
      else Inr (plain = ''wonderland'' \<and> hashed = ''$2b$12$alicehash''))"

text \<open>Two values as \<open>uuid.uuid4()\<close> returns them (version 4, variant 1).\<close>

definition uuid_a :: uuid where
  "uuid_a = 0x123e4567e89b42d3a456426614174000"

definition uuid_b :: uuid where
  "uuid_b = 0x9b2e4f7a1c3d4e5f8a6b7c8d9e0f1a2b"

section \<open>Tables that differ only in the stored hashes\<close>



section \<open>Properties of the UUID rendering\<close>

lemma length_hex32: "length (hex32 w) = 32"
  by (simp add: hex32_def)

lemma length_uuid_str: "length (uuid_str w) = 36"
  by (simp add: uuid_str_def Let_def length_hex32)

lemma uuid_str_hex32_inj:
  assumes "uuid_str a = uuid_str b"
  shows "hex32 a = hex32 b"
proof -
  let ?h = "hex32 a" and ?k = "hex32 b"
  have la: "length ?h = 32" and lb: "length ?k = 32" by (simp_all add: length_hex32)
  from assms have e:
    "take 8 ?h @ ''-'' @ take 4 (drop 8 ?h) @ ''-'' @ take 4 (drop 12 ?h) @ ''-'' @
       take 4 (drop 16 ?h) @ ''-'' @ drop 20 ?h =
     take 8 ?k @ ''-'' @ take 4 (drop 8 ?k) @ ''-'' @ take 4 (drop 12 ?k) @ ''-'' @
       take 4 (drop 16 ?k) @ ''-'' @ drop 20 ?k"
    by (simp add: uuid_str_def Let_def)
  have p1: "take 8 ?h = take 8 ?k"
    and r1: "take 4 (drop 8 ?h) @ ''-'' @ take 4 (drop 12 ?h) @ ''-'' @
               take 4 (drop 16 ?h) @ ''-'' @ drop 20 ?h =
             take 4 (drop 8 ?k) @ ''-'' @ take 4 (drop 12 ?k) @ ''-'' @
               take 4 (drop 16 ?k) @ ''-'' @ drop 20 ?k"
    using e la lb by simp_all
  have p2: "take 4 (drop 8 ?h) = take 4 (drop 8 ?k)"
    and r2: "take 4 (drop 12 ?h) @ ''-'' @ take 4 (drop 16 ?h) @ ''-'' @ drop 20 ?h =
             take 4 (drop 12 ?k) @ ''-'' @ take 4 (drop 16 ?k) @ ''-'' @ drop 20 ?k"
    using r1 la lb by simp_all
  have p3: "take 4 (drop 12 ?h) = take 4 (drop 12 ?k)"
    and r3: "take 4 (drop 16 ?h) @ ''-'' @ drop 20 ?h =
             take 4 (drop 16 ?k) @ ''-'' @ drop 20 ?k"
    using r2 la lb by simp_all
  have p4: "take 4 (drop 16 ?h) = take 4 (drop 16 ?k)" and p5: "drop 20 ?h = drop 20 ?k"
    using r3 la lb by simp_all
  have step: "drop n h = take 4 (drop n h) @ drop (n + 4) h" for n and h :: string
  proof -
    have "drop (n + 4) h = drop 4 (drop n h)" by (simp add: add.commute)
    then show ?thesis by (simp only: append_take_drop_id)
  qed
  have "drop 16 ?h = drop 16 ?k"
    using step [of 16 ?h] step [of 16 ?k] p4 p5 by simp
  then have "drop 12 ?h = drop 12 ?k"
    using step [of 12 ?h] step [of 12 ?k] p3 by simp
  then have "drop 8 ?h = drop 8 ?k"
    using step [of 8 ?h] step [of 8 ?k] p2 by simp
  then have "take 8 ?h @ drop 8 ?h = take 8 ?k @ drop 8 ?k"
    using p1 by simp
  then show ?thesis by simp
qed

lemma hex_digit_inj: "n < 16 \<Longrightarrow> m < 16 \<Longrightarrow> hex_digit n = hex_digit m \<Longrightarrow> n = m"
proof -
  have d: "distinct ''0123456789abcdef''" by simp
  assume "n < 16" "m < 16" "hex_digit n = hex_digit m"
  then show ?thesis
    using nth_eq_iff_index_eq [OF d, of n m] by (simp add: hex_digit_def)
qed

lemma nibble_less: "nibble w i < 16"
proof -
  have "drop_bit (4 * i) w AND 15 \<le> 15" by (rule word_and_le1)
  then have "unat (drop_bit (4 * i) w AND 15) \<le> unat (15 :: uuid)"
    by (simp add: word_le_nat_alt)
  then show ?thesis by (simp add: nibble_def)
qed

lemma hex32_nibbles:
  assumes "hex32 a = hex32 b" and "i < 32"
  shows "nibble a i = nibble b i"
proof -
  from assms(1) have "\<forall>i\<in>set (rev [0..<32]). hex_digit (nibble a i) = hex_digit (nibble b i)"
    unfolding hex32_def by (simp only: map_eq_conv)
  with assms(2) have "hex_digit (nibble a i) = hex_digit (nibble b i)" by simp
  then show ?thesis by (rule hex_digit_inj [OF nibble_less nibble_less])
qed

lemma bit_15: "j < 4 \<Longrightarrow> bit (15 :: uuid) j"
proof -
  assume "j < 4"
  then have "bit (mask 4 :: uuid) j" by (simp add: bit_mask_iff)
  moreover have "(mask 4 :: uuid) = 15" by (simp add: mask_eq_exp_minus_1)
  ultimately show ?thesis by (simp only:)
qed

lemma nibbles_eq:
  assumes "\<And>i. i < 32 \<Longrightarrow> nibble a i = nibble b i"
  shows "a = b"
proof (rule bit_word_eqI)
  fix n assume n: "n < LENGTH(128)"
  let ?i = "n div 4" and ?j = "n mod 4"
  have i: "?i < 32" and j: "?j < 4" using n by simp_all
  have "drop_bit (4 * ?i) a AND 15 = drop_bit (4 * ?i) b AND 15"
    using assms [OF i] by (simp add: nibble_def word_unat_eq_iff)
  then have "bit (drop_bit (4 * ?i) a AND 15) ?j = bit (drop_bit (4 * ?i) b AND 15) ?j"
    by simp
  then have "bit a (4 * ?i + ?j) = bit b (4 * ?i + ?j)"
    using bit_15 [OF j] by (simp add: bit_and_iff bit_drop_bit_eq)
  then show "bit a n = bit b n" by simp
qed

lemma uuid_str_inj: "uuid_str a = uuid_str b \<Longrightarrow> a = b"
  by (rule nibbles_eq) (rule hex32_nibbles [OF uuid_str_hex32_inj])

lemma hex32_digits: "set (hex32 w) \<subseteq> set ''0123456789abcdef''"
proof
  fix c assume "c \<in> set (hex32 w)"
  then obtain i where "c = hex_digit (nibble w i)" by (auto simp: hex32_def)
  moreover have "nibble w i < length ''0123456789abcdef''" using nibble_less [of w i] by simp
  ultimately show "c \<in> set ''0123456789abcdef''"
    unfolding hex_digit_def by (simp only: nth_mem)
qed

lemma uuid_str_chars: "set (uuid_str w) \<subseteq> insert CHR ''-'' (set ''0123456789abcdef'')"
proof -
  define D where "D = set ''0123456789abcdef''"
  have h: "set (hex32 w) \<subseteq> D"
    unfolding D_def by (rule hex32_digits)
  have t: "set (take n xs) \<subseteq> D" if "set xs \<subseteq> D" for n and xs :: string
    using that set_take_subset [of n xs] by blast
  have d: "set (drop n xs) \<subseteq> D" if "set xs \<subseteq> D" for n and xs :: string
    using that set_drop_subset [of n xs] by blast
  have "set (take 8 (hex32 w)) \<subseteq> D" "set (take 4 (drop 8 (hex32 w))) \<subseteq> D"
    "set (take 4 (drop 12 (hex32 w))) \<subseteq> D" "set (take 4 (drop 16 (hex32 w))) \<subseteq> D"
    "set (drop 20 (hex32 w)) \<subseteq> D"
    by (intro t d h)+
  then have "set (uuid_str w) \<subseteq> insert CHR ''-'' D"
    unfolding uuid_str_def Let_def by (simp only: set_append set_simps) blast
  then show ?thesis by (simp only: D_def)
qed

lemma uuid_str_hyphens:
  "uuid_str w ! 8 = CHR ''-'' \<and> uuid_str w ! 13 = CHR ''-'' \<and>
   uuid_str w ! 18 = CHR ''-'' \<and> uuid_str w ! 23 = CHR ''-''"
  by (simp add: uuid_str_def Let_def nth_append length_hex32)

section \<open>Properties of the user table\<close>

lemma find_unique_id_update:
  "find_unique_id db i = Some u \<Longrightarrow>
   find_unique_id (update_apiKey db i k) i = Some (u\<lparr>apiKey := Some k\<rparr>)"
  unfolding find_unique_id_def by (induction db) (auto split: if_splits)

lemma find_unique_email_key: "find_unique_email db e = Some u \<Longrightarrow> email u = e"
  unfolding find_unique_email_def by (auto simp: find_Some_iff)


lemma length_update: "length (update_apiKey db i k) = length db"
  by (induction db) auto

lemma update_frame_fields:
  "map (\<lambda>u. u\<lparr>apiKey := None\<rparr>) (update_apiKey db i k) = map (\<lambda>u. u\<lparr>apiKey := None\<rparr>) db"
  by (induction db) auto

lemma update_frame_rows:
  "j < length db \<Longrightarrow> id' (db ! j) \<noteq> i \<Longrightarrow> update_apiKey db i k ! j = db ! j"
proof (induction db arbitrary: j)
  case Nil
  then show ?case by simp
next
  case (Cons u us)
  then show ?case by (cases j) auto
qed





section \<open>The outcomes of \<open>issue_api_key\<close>\<close>

lemma issue_api_key_None:
  "find_unique_id db user_id = None \<Longrightarrow>
   issue_api_key uuid4 now db user_id perms = (Inl (HTTPException 404 ''User not found.''), db)"
  by (simp add: issue_api_key_def)

lemma issue_api_key_not_admin:
  "find_unique_id db user_id = Some user \<Longrightarrow> role user \<noteq> ADMIN \<Longrightarrow>
   issue_api_key uuid4 now db user_id perms =
     (Inl (HTTPException 403 ''Insufficient permissions.''), db)"
  by (simp add: issue_api_key_def)

lemma issue_api_key_admin:
  "find_unique_id db user_id = Some user \<Longrightarrow> role user = ADMIN \<Longrightarrow>
   issue_api_key uuid4 now db user_id perms =
     (Inr \<lparr>api_key = uuid_str uuid4, permissions = perms,
           expiration_date = now + timedelta_days 365\<rparr>,
      update_apiKey db user_id (uuid_str uuid4))"
  by (simp add: issue_api_key_def Let_def)

lemma issue_api_key_Inl:
  "fst (issue_api_key uuid4 now db user_id perms) = Inl e \<Longrightarrow>
   snd (issue_api_key uuid4 now db user_id perms) = db"
  by (auto simp: issue_api_key_def Let_def split: option.splits if_splits)

lemma issue_api_key_Inr:
  "issue_api_key uuid4 now db user_id perms = (Inr g, db') \<Longrightarrow>
   (\<exists>user. find_unique_id db user_id = Some user \<and> role user = ADMIN) \<and>
   g = \<lparr>api_key = uuid_str uuid4, permissions = perms,
           expiration_date = now + timedelta_days 365\<rparr> \<and>
   db' = update_apiKey db user_id (uuid_str uuid4)"
  by (auto simp: issue_api_key_def Let_def split: option.splits if_splits)



section \<open>The outcomes of \<open>create_access_token\<close> and \<open>authenticate_user\<close>\<close>

lemma create_access_token_None:
  "create_access_token g jwt_encode utcnow data None =
     jwt_encode (AList.update ''exp'' (Datetime (utcnow + timedelta_minutes 15)) data)
       (SECRET_KEY g) (ALGORITHM g)"
  by (simp add: create_access_token_def)

lemma create_access_token_Some:
  "d \<noteq> 0 \<Longrightarrow>
   create_access_token g jwt_encode utcnow data (Some d) =
     jwt_encode (AList.update ''exp'' (Datetime (utcnow + d)) data) (SECRET_KEY g) (ALGORITHM g)"
  by (simp add: create_access_token_def)

lemma authenticate_user_not_found:
  "find_unique_email db username = None \<Longrightarrow>
   authenticate_user g pwd_verify jwt_encode utcnow db username pw =
     Inl (HTTPException 404 ''User not found'')"
  by (simp add: authenticate_user_def get_user_def)


lemma authenticate_user_unauthorized:
  "find_unique_email db username = Some user \<Longrightarrow> pwd_verify pw (password user) = Inr False \<Longrightarrow>
   authenticate_user g pwd_verify jwt_encode utcnow db username pw =
     Inl (HTTPException 401 ''Incorrect username or password'')"
  by (simp add: authenticate_user_def get_user_def verify_password_def)

lemma authenticate_user_verified:
  "find_unique_email db username = Some user \<Longrightarrow> pwd_verify pw (password user) = Inr True \<Longrightarrow>
   authenticate_user g pwd_verify jwt_encode utcnow db username pw =
     (case jwt_encode [(''sub'', Str (email user)),
                       (''exp'', Datetime (utcnow + timedelta_minutes 60))]
             (SECRET_KEY g) (ALGORITHM g) of
        Inl e \<Rightarrow> Inl e
      | Inr token \<Rightarrow> Inr \<lparr>access_token = token, token_type = ''bearer''\<rparr>)"
  by (simp add: authenticate_user_def get_user_def verify_password_def Let_def
      create_access_token_def timedelta_minutes_def)


section \<open>Properties of the token library\<close>

lemma seconds_of_add_minutes:
  "seconds_of (t + timedelta_minutes m) = seconds_of t + m * 60"
  by (simp add: seconds_of_def timedelta_minutes_def)

lemma pyjwt_payload_login:
  "pyjwt_payload [(''sub'', Str s), (''exp'', Datetime t)] =
     Inr [(''sub'', JStr s), (''exp'', JInt (seconds_of t))]"
  by simp

section \<open>The endpoints\<close>

lemma api_post_authenticate_user_Inl:
  "api_post_authenticate_user exc_str g pwd_verify jwt_encode utcnow db username pw = Inl r \<Longrightarrow>
   \<exists>e. authenticate_user g pwd_verify jwt_encode utcnow db username pw = Inl e \<and>
       r = error_response exc_str e"
  by (auto simp: api_post_authenticate_user_def split: sum.splits)

lemma api_post_authenticate_user_error_status:
  "api_post_authenticate_user exc_str g pwd_verify jwt_encode utcnow db username pw = Inl r \<Longrightarrow>
   status_code r = 500"
  by (auto simp: error_response_def dest: api_post_authenticate_user_Inl)

section \<open>Lookups in tables that differ only in the stored hashes\<close>











section \<open>Claims about \<open>authenticate_user\<close> and \<open>create_access_token\<close>\<close>

text \<open>
  C1. When a row with the given handle exists and the password verifies against its stored
  hash, \<open>authenticate_user\<close> returns a response whose token type is "bearer". Its token
  is the one PyJWT makes of the payload with the module's key and algorithm; read back by
  any reader that inverts the signer, it carries a \<open>sub\<close> claim equal to the row's
  email, which is the handle, and an \<open>exp\<close> claim of exactly 60 minutes (3600 seconds)
  after the time of issuance. The token counts time in whole seconds: the issuance time is
  the \<open>utcnow\<close> of the call with its microseconds dropped, and dropping them after adding
  the 60 minutes gives the same value. The signer is assumed to accept the module's key and
  algorithm.
\<close>

theorem authenticate_user_token:
  assumes "find_unique_email db username = Some user"
    and "pwd_verify pw (password user) = Inr True"
    and "\<And>j. \<exists>tok. sign j (SECRET_KEY g) (ALGORITHM g) = Inr tok"
    and "\<And>j k a tok. sign j k a = Inr tok \<Longrightarrow> unsign tok k a = Some j"
  shows "\<exists>tok j.
           authenticate_user g pwd_verify (pyjwt_encode sign) utcnow db username pw =
             Inr \<lparr>access_token = tok, token_type = ''bearer''\<rparr> \<and>
           unsign tok (SECRET_KEY g) (ALGORITHM g) = Some j \<and>
           map_of j ''exp'' = Some (JInt (seconds_of utcnow + 60 * 60)) \<and>
           seconds_of utcnow + 60 * 60 = seconds_of (utcnow + timedelta_minutes 60) \<and>
           seconds_of utcnow * 1000000 \<le> utcnow \<and>
           utcnow < (seconds_of utcnow + 1) * 1000000 \<and>
           map_of j ''sub'' = Some (JStr (email user)) \<and>
           email user = username"
proof -
  let ?j = "[(''sub'', JStr (email user)),
             (''exp'', JInt (seconds_of (utcnow + timedelta_minutes 60)))]"
  from assms(3) obtain tok where tok: "sign ?j (SECRET_KEY g) (ALGORITHM g) = Inr tok"
    by blast
  have enc: "pyjwt_encode sign [(''sub'', Str (email user)),
                 (''exp'', Datetime (utcnow + timedelta_minutes 60))]
               (SECRET_KEY g) (ALGORITHM g) = Inr tok"
    by (simp add: pyjwt_encode_def tok)
  have "authenticate_user g pwd_verify (pyjwt_encode sign) utcnow db username pw =
          Inr \<lparr>access_token = tok, token_type = ''bearer''\<rparr>"
    unfolding authenticate_user_verified [where pwd_verify = pwd_verify, OF assms(1,2)]
    by (simp add: enc)
  moreover have "unsign tok (SECRET_KEY g) (ALGORITHM g) = Some ?j"
    by (rule assms(4) [OF tok])
  moreover have s: "seconds_of (utcnow + timedelta_minutes 60) = seconds_of utcnow + 60 * 60"
    by (rule seconds_of_add_minutes)
  moreover have "map_of ?j ''exp'' = Some (JInt (seconds_of utcnow + 60 * 60))"
    and "map_of ?j ''sub'' = Some (JStr (email user))"
    by (simp_all add: s)
  moreover have "seconds_of utcnow * 1000000 \<le> utcnow"
    and "utcnow < (seconds_of utcnow + 1) * 1000000"
    by (simp_all add: seconds_of_def)
  moreover have "email user = username"
    by (rule find_unique_email_key [OF assms(1)])
  ultimately show ?thesis by (metis (no_types))
qed

theorem authenticate_user_token_witness:
  "find_unique_email [alice, bob] ''alice@example.com'' = Some alice \<and>
   alice_pwd_verify ''wonderland'' (password alice) = Inr True \<and>
   (\<forall>j. \<exists>tok. sym_sign j (SECRET_KEY auth_module) (ALGORITHM auth_module) = Inr tok) \<and>
   (\<forall>j k a. case sym_sign j k a of
               Inl e \<Rightarrow> True
             | Inr tok \<Rightarrow> sym_unsign tok k a = Some j) \<and>
   (\<exists>tok j.
      authenticate_user auth_module alice_pwd_verify (pyjwt_encode sym_sign) 1700000000123456
        [alice, bob] ''alice@example.com'' ''wonderland'' =
        Inr \<lparr>access_token = tok, token_type = ''bearer''\<rparr> \<and>
      sym_unsign tok ''YOUR_SECRET_KEY'' ''HS256'' = Some j \<and>
      map_of j ''exp'' = Some (JInt 1700003600) \<and>
      map_of j ''sub'' = Some (JStr ''alice@example.com''))"
proof -
  have f: "find_unique_email [alice, bob] ''alice@example.com'' = Some alice"
    by (simp add: find_unique_email_def alice_def)
  have v: "alice_pwd_verify ''wonderland'' (password alice) = Inr True"
    by (simp add: alice_pwd_verify_def alice_def)
  have a: "\<exists>tok. sym_sign j (SECRET_KEY auth_module) (ALGORITHM auth_module) = Inr tok" for j
    by (simp add: sym_sign_def auth_module_def)
  have d: "sym_unsign tok k a = Some j" if "sym_sign j k a = Inr tok" for j k a tok
    using that by (auto simp: sym_sign_def split: if_splits)
  have e: "email alice = ''alice@example.com''" by (simp add: alice_def)
  have t: "seconds_of 1700000000123456 + 60 * 60 = 1700003600" by (simp add: seconds_of_def)
  from authenticate_user_token [where sign = sym_sign and unsign = sym_unsign
      and pwd_verify = alice_pwd_verify and g = auth_module and utcnow = 1700000000123456,
      OF f v a d]
  obtain tok j where
    "authenticate_user auth_module alice_pwd_verify (pyjwt_encode sym_sign) 1700000000123456
       [alice, bob] ''alice@example.com'' ''wonderland'' =
       Inr \<lparr>access_token = tok, token_type = ''bearer''\<rparr>"
    "sym_unsign tok (SECRET_KEY auth_module) (ALGORITHM auth_module) = Some j"
    "map_of j ''exp'' = Some (JInt (seconds_of 1700000000123456 + 60 * 60))"
    "map_of j ''sub'' = Some (JStr (email alice))"
    by blast
  then have "\<exists>tok j.
      authenticate_user auth_module alice_pwd_verify (pyjwt_encode sym_sign) 1700000000123456
        [alice, bob] ''alice@example.com'' ''wonderland'' =
        Inr \<lparr>access_token = tok, token_type = ''bearer''\<rparr> \<and>
      sym_unsign tok ''YOUR_SECRET_KEY'' ''HS256'' = Some j \<and>
      map_of j ''exp'' = Some (JInt 1700003600) \<and>
      map_of j ''sub'' = Some (JStr ''alice@example.com'')"
    unfolding e t by (auto simp: auth_module_def)
  moreover have "\<forall>j k a. case sym_sign j k a of
               Inl e \<Rightarrow> True
             | Inr tok \<Rightarrow> sym_unsign tok k a = Some j"
    by (simp add: sym_sign_def)
  ultimately show ?thesis using f v a by blast
qed

text \<open>
  C2. The service raises the 404 exception for an unknown handle and the 401 exception for a
  wrong password (\<open>authenticate_user_not_found\<close>, \<open>authenticate_user_unauthorized\<close>),
  but the endpoint \<open>api_post_authenticate_user\<close> catches every exception and answers
  with status 500: for an unknown handle and for a wrong password alike the response carries
  500, not 404 or 401.
\<close>

theorem api_post_authenticate_user_status:
  "api_post_authenticate_user exc_str g pwd_verify jwt_encode utcnow [alice, bob]
     ''carol@example.com'' pw =
     Inl \<lparr>content = [(''error'', exc_str (HTTPException 404 ''User not found''))],
          status_code = 500, media_type = ''application/json''\<rparr> \<and>
   api_post_authenticate_user exc_str g alice_pwd_verify jwt_encode utcnow [alice, bob]
     ''alice@example.com'' ''rabbit'' =
     Inl \<lparr>content = [(''error'', exc_str (HTTPException 401 ''Incorrect username or password''))],
          status_code = 500, media_type = ''application/json''\<rparr>"
proof -
  have n: "find_unique_email [alice, bob] ''carol@example.com'' = None"
    by (simp add: find_unique_email_def alice_def bob_def)
  have s: "find_unique_email [alice, bob] ''alice@example.com'' = Some alice"
    by (simp add: find_unique_email_def alice_def)
  have v: "alice_pwd_verify ''rabbit'' (password alice) = Inr False"
    by (simp add: alice_pwd_verify_def alice_def)
  show ?thesis
    by (simp add: api_post_authenticate_user_def error_response_def
        authenticate_user_not_found [OF n]
        authenticate_user_unauthorized [where pwd_verify = alice_pwd_verify, OF s v])
qed

text \<open>
  C8. Without \<open>expires_delta\<close> the \<open>exp\<close> claim is the current time plus 15 minutes
  (\<open>create_access_token_None\<close>), and with a non-zero one it is the current time plus that
  duration (\<open>create_access_token_Some\<close>). A supplied duration of zero is falsy in the
  test \<open>if expires_delta\<close>, so the token then expires 15 minutes after the current time
  instead of at the current time.
\<close>

theorem create_access_token_zero_ttl:
  "create_access_token g jwt_encode utcnow [(''sub'', Str ''alice@example.com'')] (Some 0) =
     jwt_encode [(''sub'', Str ''alice@example.com''), (''exp'', Datetime (utcnow + 900000000))]
       (SECRET_KEY g) (ALGORITHM g)"
  by (simp add: create_access_token_def timedelta_minutes_def)




section \<open>Claims about \<open>issue_api_key\<close>\<close>

text \<open>
  C3. A call of \<open>issue_api_key\<close> for an id with no row fails with the 404
  "User not found." exception; for a row whose role is not \<open>ADMIN\<close> it fails with the
  403 "Insufficient permissions." exception, the lookup being decided first; and whenever the
  call fails, the table afterwards is the table before.
\<close>

theorem issue_api_key_failures:
  "(find_unique_id db user_id = None \<longrightarrow>
      issue_api_key uuid4 now db user_id perms =
        (Inl (HTTPException 404 ''User not found.''), db)) \<and>
   (\<forall>user. find_unique_id db user_id = Some user \<and> role user \<noteq> ADMIN \<longrightarrow>
      issue_api_key uuid4 now db user_id perms =
        (Inl (HTTPException 403 ''Insufficient permissions.''), db)) \<and>
   (\<forall>e. fst (issue_api_key uuid4 now db user_id perms) = Inl e \<longrightarrow>
      snd (issue_api_key uuid4 now db user_id perms) = db)"
  using issue_api_key_None issue_api_key_not_admin issue_api_key_Inl by blast

theorem issue_api_key_failures_witness:
  "find_unique_id [alice, bob] ''u9'' = None \<and>
   issue_api_key 7 1000 [alice, bob] ''u9'' [''read''] =
     (Inl (HTTPException 404 ''User not found.''), [alice, bob]) \<and>
   find_unique_id [alice, bob] ''u2'' = Some bob \<and> role bob \<noteq> ADMIN \<and>
   issue_api_key 7 1000 [alice, bob] ''u2'' [''read''] =
     (Inl (HTTPException 403 ''Insufficient permissions.''), [alice, bob])"
proof -
  have n: "find_unique_id [alice, bob] ''u9'' = None"
    by (simp add: find_unique_id_def alice_def bob_def)
  have s: "find_unique_id [alice, bob] ''u2'' = Some bob"
    by (simp add: find_unique_id_def alice_def bob_def)
  have r: "role bob \<noteq> ADMIN" by (simp add: bob_def)
  from n s r
    issue_api_key_failures [of "[alice, bob]" "''u9''" 7 1000 "[''read'']"]
    issue_api_key_failures [of "[alice, bob]" "''u2''" 7 1000 "[''read'']"]
  show ?thesis by blast
qed

text \<open>
  C4. A call of \<open>issue_api_key\<close> for an existing \<open>ADMIN\<close> row succeeds with a grant
  whose expiration date is the call's current time plus 365 days and whose permissions are
  the list the caller passed. Its key is generated from the UUID drawn in that call and from
  nothing else: it is the rendering of that value, 36 characters long, hexadecimal digits
  with hyphens at positions 8, 13, 18 and 23; no other UUID renders to the same key, and the
  same draw gives the same key whatever the table, the time and the permissions are. The
  table afterwards is the table before with that key written to the row, so a lookup of the
  id returns the row with the new key.
\<close>

theorem issue_api_key_grant:
  assumes "find_unique_id db user_id = Some user" and "role user = ADMIN"
    and "issue_api_key uuid4 now db user_id perms = (res, db')"
  shows "\<exists>g. res = Inr g \<and>
           expiration_date g = now + timedelta_days 365 \<and>
           timedelta_days 365 = 365 * 24 * 60 * 60 * 1000000 \<and>
           api_key g = uuid_str uuid4 \<and> length (api_key g) = 36 \<and>
           (\<forall>u. uuid_str u = api_key g \<longrightarrow> u = uuid4) \<and>
           (\<forall>now2 db2 id2 perms2 g2 db2'.
              issue_api_key uuid4 now2 db2 id2 perms2 = (Inr g2, db2') \<longrightarrow>
              api_key g2 = api_key g) \<and>
           set (api_key g) \<subseteq> insert CHR ''-'' (set ''0123456789abcdef'') \<and>
           api_key g ! 8 = CHR ''-'' \<and> api_key g ! 13 = CHR ''-'' \<and>
           api_key g ! 18 = CHR ''-'' \<and> api_key g ! 23 = CHR ''-'' \<and>
           permissions g = perms \<and>
           db' = update_apiKey db user_id (api_key g) \<and>
           find_unique_id db' user_id = Some (user\<lparr>apiKey := Some (api_key g)\<rparr>)"
proof -
  let ?g = "\<lparr>api_key = uuid_str uuid4, permissions = perms,
             expiration_date = now + timedelta_days 365\<rparr>"
  from assms(3) issue_api_key_admin [OF assms(1,2), of uuid4 now perms]
  have res: "res = Inr ?g" and db': "db' = update_apiKey db user_id (uuid_str uuid4)"
    by simp_all
  have f: "find_unique_id db' user_id = Some (user\<lparr>apiKey := Some (uuid_str uuid4)\<rparr>)"
    unfolding db' by (rule find_unique_id_update [OF assms(1)])
  have d: "timedelta_days 365 = 365 * 24 * 60 * 60 * 1000000"
    by (simp add: timedelta_days_def)
  have i: "\<forall>u. uuid_str u = uuid_str uuid4 \<longrightarrow> u = uuid4"
    using uuid_str_inj by blast
  have k: "\<forall>now2 db2 id2 perms2 g2 db2'.
              issue_api_key uuid4 now2 db2 id2 perms2 = (Inr g2, db2') \<longrightarrow>
              api_key g2 = uuid_str uuid4"
    using issue_api_key_Inr by fastforce
  have c: "set (uuid_str uuid4) \<subseteq> insert CHR ''-'' (set ''0123456789abcdef'')"
    by (rule uuid_str_chars)
  note h = uuid_str_hyphens [of uuid4]
  have "expiration_date ?g = now + timedelta_days 365 \<and>
        timedelta_days 365 = 365 * 24 * 60 * 60 * 1000000 \<and>
        api_key ?g = uuid_str uuid4 \<and> length (api_key ?g) = 36 \<and>
        (\<forall>u. uuid_str u = api_key ?g \<longrightarrow> u = uuid4) \<and>
        (\<forall>now2 db2 id2 perms2 g2 db2'.
           issue_api_key uuid4 now2 db2 id2 perms2 = (Inr g2, db2') \<longrightarrow>
           api_key g2 = api_key ?g) \<and>
        set (api_key ?g) \<subseteq> insert CHR ''-'' (set ''0123456789abcdef'') \<and>
        api_key ?g ! 8 = CHR ''-'' \<and> api_key ?g ! 13 = CHR ''-'' \<and>
        api_key ?g ! 18 = CHR ''-'' \<and> api_key ?g ! 23 = CHR ''-'' \<and>
        permissions ?g = perms \<and>
        db' = update_apiKey db user_id (api_key ?g) \<and>
        find_unique_id db' user_id = Some (user\<lparr>apiKey := Some (api_key ?g)\<rparr>)"
    unfolding IssueApiKeyResponse.simps
    using d i k c h f db' length_uuid_str [of uuid4] by (intro conjI) simp_all
  with res show ?thesis by blast
qed

theorem issue_api_key_grant_witness:
  "find_unique_id [alice, bob] ''u1'' = Some alice \<and> role alice = ADMIN \<and>
   fst (issue_api_key uuid_a 1000 [alice, bob] ''u1'' [''read'', ''write'']) =
     Inr \<lparr>api_key = ''123e4567-e89b-42d3-a456-426614174000'',
          permissions = [''read'', ''write''], expiration_date = 1000 + 31536000000000\<rparr> \<and>
   fst (issue_api_key uuid_b 1000 [alice, bob] ''u1'' [''read'', ''write'']) =
     Inr \<lparr>api_key = ''9b2e4f7a-1c3d-4e5f-8a6b-7c8d9e0f1a2b'',
          permissions = [''read'', ''write''], expiration_date = 1000 + 31536000000000\<rparr> \<and>
   find_unique_id (snd (issue_api_key uuid_a 1000 [alice, bob] ''u1'' [''read'', ''write''])) ''u1'' =
     Some (alice\<lparr>apiKey := Some ''123e4567-e89b-42d3-a456-426614174000''\<rparr>)"
proof -
  have s: "find_unique_id [alice, bob] ''u1'' = Some alice"
    by (simp add: find_unique_id_def alice_def)
  have r: "role alice = ADMIN" by (simp add: alice_def)
  have a: "uuid_str uuid_a = ''123e4567-e89b-42d3-a456-426614174000''"
    unfolding uuid_a_def by code_simp
  have b: "uuid_str uuid_b = ''9b2e4f7a-1c3d-4e5f-8a6b-7c8d9e0f1a2b''"
    unfolding uuid_b_def by code_simp
  have d: "timedelta_days 365 = 31536000000000" by (simp add: timedelta_days_def)
  from issue_api_key_grant [OF s r surjective_pairing, of uuid_a 1000 "[''read'', ''write'']"]
  obtain g where g: "fst (issue_api_key uuid_a 1000 [alice, bob] ''u1'' [''read'', ''write'']) = Inr g"
    "expiration_date g = 1000 + timedelta_days 365" "api_key g = uuid_str uuid_a"
    "permissions g = [''read'', ''write'']"
    "find_unique_id (snd (issue_api_key uuid_a 1000 [alice, bob] ''u1'' [''read'', ''write''])) ''u1'' =
       Some (alice\<lparr>apiKey := Some (api_key g)\<rparr>)"
    by blast
  from issue_api_key_grant [OF s r surjective_pairing, of uuid_b 1000 "[''read'', ''write'']"]
  obtain g' where g': "fst (issue_api_key uuid_b 1000 [alice, bob] ''u1'' [''read'', ''write'']) = Inr g'"
    "expiration_date g' = 1000 + timedelta_days 365" "api_key g' = uuid_str uuid_b"
    "permissions g' = [''read'', ''write'']"
    by blast
  have "g = \<lparr>api_key = ''123e4567-e89b-42d3-a456-426614174000'',
          permissions = [''read'', ''write''], expiration_date = 1000 + 31536000000000\<rparr>"
    using g(2,3,4) a d by simp
  moreover have "g' = \<lparr>api_key = ''9b2e4f7a-1c3d-4e5f-8a6b-7c8d9e0f1a2b'',
          permissions = [''read'', ''write''], expiration_date = 1000 + 31536000000000\<rparr>"
    using g'(2,3,4) b d by simp
  ultimately show ?thesis using s r g(1,3,5) g'(1) a by simp
qed

text \<open>
  C10. A successful call of \<open>issue_api_key\<close> changes the table only by writing the new
  key into the \<open>apiKey\<close> column of the row it looked up: the table keeps its length, every
  row keeps all its other columns, rows with another id are untouched, and the table
  afterwards is the same whatever the current time and the permissions of the call were, so
  neither the expiration date nor the permissions of the grant are stored.
\<close>

theorem issue_api_key_frame:
  assumes "issue_api_key uuid4 now db user_id perms = (Inr g, db')"
  shows "db' = update_apiKey db user_id (api_key g) \<and>
         length db' = length db \<and>
         map (\<lambda>u. u\<lparr>apiKey := None\<rparr>) db' = map (\<lambda>u. u\<lparr>apiKey := None\<rparr>) db \<and>
         (\<forall>j<length db. id' (db ! j) \<noteq> user_id \<longrightarrow> db' ! j = db ! j) \<and>
         (\<forall>now' perms'. snd (issue_api_key uuid4 now' db user_id perms') = db')"
proof -
  from issue_api_key_Inr [OF assms] obtain user where
    u: "find_unique_id db user_id = Some user" "role user = ADMIN" and
    g: "g = \<lparr>api_key = uuid_str uuid4, permissions = perms,
             expiration_date = now + timedelta_days 365\<rparr>" and
    db': "db' = update_apiKey db user_id (uuid_str uuid4)"
    by blast
  have k: "api_key g = uuid_str uuid4" by (simp add: g)
  have 1: "db' = update_apiKey db user_id (api_key g)" by (simp add: db' k)
  have 2: "length db' = length db" by (simp add: db' length_update)
  have 3: "map (\<lambda>u. u\<lparr>apiKey := None\<rparr>) db' = map (\<lambda>u. u\<lparr>apiKey := None\<rparr>) db"
    unfolding db' by (rule update_frame_fields)
  have 4: "\<forall>j<length db. id' (db ! j) \<noteq> user_id \<longrightarrow> db' ! j = db ! j"
    by (simp add: db' update_frame_rows)
  have 5: "\<forall>now' perms'. snd (issue_api_key uuid4 now' db user_id perms') = db'"
    by (simp add: issue_api_key_admin [OF u] db')
  from 1 2 3 4 5 show ?thesis by blast
qed

theorem issue_api_key_frame_witness:
  "(let r = issue_api_key 7 1000 [bob, alice] ''u1'' [''read'', ''write'']
    in (\<exists>g. fst r = Inr g) \<and>
       snd r = [bob, alice\<lparr>apiKey := Some ''00000000-0000-0000-0000-000000000007''\<rparr>] \<and>
       snd r ! 0 = bob \<and>
       snd (issue_api_key 7 5 [bob, alice] ''u1'' []) = snd r)"
proof -
  let ?g = "\<lparr>api_key = uuid_str 7, permissions = [''read'', ''write''],
             expiration_date = 1000 + timedelta_days 365\<rparr>"
  have s: "find_unique_id [bob, alice] ''u1'' = Some alice"
    by (simp add: find_unique_id_def alice_def bob_def)
  have r: "role alice = ADMIN" by (simp add: alice_def)
  have u: "uuid_str 7 = ''00000000-0000-0000-0000-000000000007''" by code_simp
  have e: "issue_api_key 7 1000 [bob, alice] ''u1'' [''read'', ''write''] =
             (Inr ?g, update_apiKey [bob, alice] ''u1'' (uuid_str 7))"
    by (rule issue_api_key_admin [OF s r])
  have i: "id' bob \<noteq> ''u1''" "id' alice = ''u1''" by (simp_all add: alice_def bob_def)
  from issue_api_key_frame [OF e] e u i show ?thesis
    by (simp add: Let_def)
qed




end
